theory Spec2Isabelle
  imports Main "HOL-Library.Multiset"
begin

section \<open>Go values: strings, errors, slices\<close>

text \<open>
  A Go string is a sequence of bytes, here a \<open>string\<close>. The Portuguese messages of the
  program hold letters outside ASCII; they are written as their UTF-8 bytes.
\<close>

abbreviation a_tilde :: string where "a_tilde \<equiv> [CHR 0xC3, CHR 0xA3]"
abbreviation a_acute :: string where "a_acute \<equiv> [CHR 0xC3, CHR 0xA1]"
abbreviation c_cedil :: string where "c_cedil \<equiv> [CHR 0xC3, CHR 0xA7]"
abbreviation e_acute :: string where "e_acute \<equiv> [CHR 0xC3, CHR 0xA9]"
abbreviation i_acute :: string where "i_acute \<equiv> [CHR 0xC3, CHR 0xAD]"
abbreviation o_acute :: string where "o_acute \<equiv> [CHR 0xC3, CHR 0xB3]"
abbreviation apos :: string where "apos \<equiv> [CHR 0x27]"
abbreviation dquote :: string where "dquote \<equiv> [CHR 0x22]"

text \<open>The text the handlers look for in a store error (Portuguese for "not found").\<close>

abbreviation nao_encontrado :: string where
  "nao_encontrado \<equiv> ''n'' @ a_tilde @ ''o encontrado''"

text \<open>\<open>strings.HasPrefix\<close>, \<open>strings.Contains\<close> and \<open>strings.TrimPrefix\<close>.\<close>

fun HasPrefix :: "string \<Rightarrow> string \<Rightarrow> bool" where
  "HasPrefix s [] = True"
| "HasPrefix [] (p # ps) = False"
| "HasPrefix (c # s) (p # ps) = (c = p \<and> HasPrefix s ps)"

fun Contains :: "string \<Rightarrow> string \<Rightarrow> bool" where
  "Contains [] substr = (substr = [])"
| "Contains (c # s) substr = (HasPrefix (c # s) substr \<or> Contains s substr)"

definition TrimPrefix :: "string \<Rightarrow> string \<Rightarrow> string" where
  "TrimPrefix s p = (if HasPrefix s p then drop (length p) s else s)"

text \<open>
  A Go \<open>error\<close>. \<open>ErrNoRows\<close> is the sentinel \<open>sql.ErrNoRows\<close>, which the store compares
  by identity; \<open>Err m\<close> is any other error with message \<open>m\<close>; \<open>Wrap m e\<close> is what
  \<open>fmt.Errorf\<close> with a \<open>%w\<close> verb builds: the formatted message \<open>m\<close> around \<open>e\<close>.
\<close>

datatype error = ErrNoRows | Err string | Wrap string error

fun Error :: "error \<Rightarrow> string" where
  "Error ErrNoRows = ''sql: no rows in result set''"
| "Error (Err m) = m"
| "Error (Wrap m e) = m"

text \<open>\<open>fmt.Errorf(prefix + "%w", err)\<close>.\<close>

definition Errorf_w :: "string \<Rightarrow> error \<Rightarrow> error" where
  "Errorf_w prefix err = Wrap (prefix @ Error err) err"

text \<open>
  A Go slice: \<open>None\<close> is the \<open>nil\<close> slice, \<open>Some xs\<close> a slice that is not \<open>nil\<close>
  (possibly of length 0). \<open>append\<close> on a \<open>nil\<close> slice gives a slice that is not \<open>nil\<close>.
\<close>

type_synonym 'a slice = "'a list option"

fun append_slice :: "'a slice \<Rightarrow> 'a \<Rightarrow> 'a slice" where
  "append_slice None x = Some [x]"
| "append_slice (Some xs) x = Some (xs @ [x])"

fun len :: "'a slice \<Rightarrow> nat" where
  "len None = 0"
| "len (Some xs) = length xs"

text \<open>The elements of a slice, in order.\<close>

fun items :: "'a slice \<Rightarrow> 'a list" where
  "items None = []"
| "items (Some xs) = xs"

section \<open>The record type (internal/todo)\<close>

type_synonym timestamp = int

record Todo =
  ID :: string
  Title :: string
  Description :: string
  Completed :: bool
  CreatedAt :: timestamp
  UpdatedAt :: timestamp

section \<open>The table \<open>todos\<close> (schema.sql) and the statements the store issues\<close>

text \<open>
  A row of the table. \<open>description\<close> is the only column that admits \<open>NULL\<close>
  (\<open>None\<close>). The primary key \<open>id\<close> is kept as the text the program sends and receives.
\<close>

record row =
  id_col :: string
  title :: string
  description :: "string option"
  completed :: bool
  created_at :: timestamp
  updated_at :: timestamp

type_synonym todos_table = "row list"

text \<open>
  What is outside the program at one store call, carried where the source passes
  \<open>ctx\<close>: \<open>query_err\<close> is the failure the driver reports for the statement (a lost
  connection, a cancelled context, a value the server rejects for its column, such as
  a title over 255 characters or an identifier that is no uuid) and \<open>None\<close> when it
  runs; \<open>rows_err\<close> is a failure while the result rows are read, after so many rows;
  \<open>affected_err\<close> is a failure of \<open>RowsAffected\<close>; \<open>now\<close> is the value of \<open>NOW()\<close>
  and \<open>gen_random_uuid\<close> the value of \<open>gen_random_uuid()\<close> in this statement.
  A statement that fails leaves the table as it was.
\<close>

record ctx =
  query_err :: "error option"
  rows_err :: "(nat \<times> error) option"
  affected_err :: "error option"
  now :: timestamp
  gen_random_uuid :: string

abbreviation unique_violation :: error where
  "unique_violation \<equiv> Err ''ERROR: duplicate key value violates unique constraint (SQLSTATE 23505)''"

text \<open>
  \<open>INSERT INTO todos (title, description, completed) VALUES ($1, $2, $3) RETURNING ...\<close>:
  the columns left out take their defaults, both timestamps the same \<open>NOW()\<close>; the
  primary key rejects an identifier that is already there.
\<close>

definition insert_todo ::
  "ctx \<Rightarrow> string \<Rightarrow> string \<Rightarrow> bool \<Rightarrow> todos_table \<Rightarrow> (error + row list) \<times> todos_table" where
  "insert_todo c t d b tbl =
     (case query_err c of
        Some e \<Rightarrow> (Inl e, tbl)
      | None \<Rightarrow>
          (let r = \<lparr>id_col = gen_random_uuid c, title = t, description = Some d, completed = b,
                    created_at = now c, updated_at = now c\<rparr>
           in if gen_random_uuid c \<in> set (map id_col tbl) then (Inl unique_violation, tbl)
              else (Inr [r], tbl @ [r])))"

text \<open>\<open>SELECT ... FROM todos WHERE id = $1\<close>.\<close>

definition select_by_id :: "ctx \<Rightarrow> string \<Rightarrow> todos_table \<Rightarrow> error + row list" where
  "select_by_id c i tbl =
     (case query_err c of
        Some e \<Rightarrow> Inl e
      | None \<Rightarrow> Inr (filter (\<lambda>r. id_col r = i) tbl))"

text \<open>
  \<open>ORDER BY created_at DESC\<close>. SQL leaves the order of rows with equal keys open;
  the model keeps them in table order.
\<close>

definition order_by_created_at_desc :: "row list \<Rightarrow> row list" where
  "order_by_created_at_desc rs = sort_key (\<lambda>r. - created_at r) rs"

text \<open>\<open>SELECT ... FROM todos ORDER BY created_at DESC\<close>.\<close>

definition select_all :: "ctx \<Rightarrow> todos_table \<Rightarrow> error + row list" where
  "select_all c tbl =
     (case query_err c of
        Some e \<Rightarrow> Inl e
      | None \<Rightarrow> Inr (order_by_created_at_desc tbl))"

text \<open>
  \<open>UPDATE todos SET title = $1, description = $2, completed = $3, updated_at = NOW()
  WHERE id = $4 RETURNING ...\<close>: the rows returned are the rows as updated.
\<close>

definition set_row :: "ctx \<Rightarrow> string \<Rightarrow> string \<Rightarrow> bool \<Rightarrow> row \<Rightarrow> row" where
  "set_row c t d b r = r\<lparr>title := t, description := Some d, completed := b, updated_at := now c\<rparr>"

definition update_todo ::
  "ctx \<Rightarrow> string \<Rightarrow> string \<Rightarrow> bool \<Rightarrow> string \<Rightarrow> todos_table \<Rightarrow> (error + row list) \<times> todos_table" where
  "update_todo c t d b i tbl =
     (case query_err c of
        Some e \<Rightarrow> (Inl e, tbl)
      | None \<Rightarrow>
          (Inr (map (set_row c t d b) (filter (\<lambda>r. id_col r = i) tbl)),
           map (\<lambda>r. if id_col r = i then set_row c t d b r else r) tbl))"

text \<open>\<open>DELETE FROM todos WHERE id = $1\<close>; the result counts the rows deleted.\<close>

definition delete_todo :: "ctx \<Rightarrow> string \<Rightarrow> todos_table \<Rightarrow> (error + nat) \<times> todos_table" where
  "delete_todo c i tbl =
     (case query_err c of
        Some e \<Rightarrow> (Inl e, tbl)
      | None \<Rightarrow> (Inr (length (filter (\<lambda>r. id_col r = i) tbl)), filter (\<lambda>r. id_col r \<noteq> i) tbl))"

text \<open>
  \<open>Scan\<close> of a whole row into the fields of a \<open>Todo\<close>. The destination of
  \<open>description\<close> is a Go \<open>string\<close>, into which \<open>database/sql\<close> refuses to convert \<open>NULL\<close>.
\<close>

abbreviation null_to_string :: error where
  "null_to_string \<equiv> Err (''sql: Scan error on column index 2, name '' @ dquote @ ''description''
     @ dquote @ '': converting NULL to string is unsupported'')"

definition Scan :: "row \<Rightarrow> error + Todo" where
  "Scan r =
     (case description r of
        None \<Rightarrow> Inl null_to_string
      | Some d \<Rightarrow> Inr \<lparr>ID = id_col r, Title = title r, Description = d, Completed = completed r,
                       CreatedAt = created_at r, UpdatedAt = updated_at r\<rparr>)"

text \<open>
  \<open>QueryRowContext(...).Scan(...)\<close>: the error of the query, \<open>sql.ErrNoRows\<close> when the
  result has no row, and otherwise the scan of its first row.
\<close>

definition QueryRow_Scan :: "error + row list \<Rightarrow> (row \<Rightarrow> error + 'a) \<Rightarrow> error + 'a" where
  "QueryRow_Scan res scan =
     (case res of
        Inl e \<Rightarrow> Inl e
      | Inr [] \<Rightarrow> Inl ErrNoRows
      | Inr (r # rs) \<Rightarrow> scan r)"

section \<open>The store (internal/storage)\<close>

text \<open>
  The interface \<open>Store\<close>. A method takes the context of the call and the state of the
  storage behind it and returns its Go results with the new state; a pair
  \<open>(value, err)\<close> is the pair of results of the Go method, \<open>None\<close> for \<open>nil\<close>.
\<close>

record ('c, 's) Store =
  CreateTodo :: "'c \<Rightarrow> Todo \<Rightarrow> 's \<Rightarrow> (Todo option \<times> error option) \<times> 's"
  GetTodo :: "'c \<Rightarrow> string \<Rightarrow> 's \<Rightarrow> (Todo option \<times> error option) \<times> 's"
  ListTodos :: "'c \<Rightarrow> 's \<Rightarrow> (Todo slice \<times> error option) \<times> 's"
  UpdateTodo :: "'c \<Rightarrow> string \<Rightarrow> Todo \<Rightarrow> 's \<Rightarrow> (Todo option \<times> error option) \<times> 's"
  DeleteTodo :: "'c \<Rightarrow> string \<Rightarrow> 's \<Rightarrow> error option \<times> 's"

text \<open>\<open>PostgresStore.CreateTodo\<close>: only the three scanned fields of \<open>t\<close> are overwritten.\<close>

definition PostgresStore_CreateTodo ::
  "ctx \<Rightarrow> Todo \<Rightarrow> todos_table \<Rightarrow> (Todo option \<times> error option) \<times> todos_table" where
  "PostgresStore_CreateTodo c t tbl =
     (case insert_todo c (Title t) (Description t) (Completed t) tbl of (res, tbl') \<Rightarrow>
        (case QueryRow_Scan res
                (\<lambda>r. Inr (t\<lparr>ID := id_col r, CreatedAt := created_at r, UpdatedAt := updated_at r\<rparr>)) of
           Inl err \<Rightarrow> ((None, Some (Errorf_w ''storage: falha ao criar todo: '' err)), tbl')
         | Inr t' \<Rightarrow> ((Some t', None), tbl')))"

text \<open>\<open>PostgresStore.GetTodo\<close>.\<close>

definition PostgresStore_GetTodo ::
  "ctx \<Rightarrow> string \<Rightarrow> todos_table \<Rightarrow> (Todo option \<times> error option) \<times> todos_table" where
  "PostgresStore_GetTodo c i tbl =
     (case QueryRow_Scan (select_by_id c i tbl) Scan of
        Inl err \<Rightarrow>
          (if err = ErrNoRows
           then ((None, Some (Errorf_w (''storage: todo com id '' @ apos @ i @ apos @ '' ''
                   @ nao_encontrado @ '': '') err)), tbl)
           else ((None, Some (Errorf_w ''storage: falha ao buscar todo: '' err)), tbl))
      | Inr t \<Rightarrow> ((Some t, None), tbl))"

text \<open>
  The loop of \<open>PostgresStore.ListTodos\<close> over the rows delivered: \<open>todos\<close> starts as the
  \<open>nil\<close> slice and grows by \<open>append\<close>; a row that does not scan ends the call.
\<close>

fun scan_rows :: "row list \<Rightarrow> Todo slice \<Rightarrow> error + Todo slice" where
  "scan_rows [] todos = Inr todos"
| "scan_rows (r # rs) todos =
     (case Scan r of
        Inl err \<Rightarrow> Inl (Errorf_w ''storage: falha ao escanear linha do todo: '' err)
      | Inr t \<Rightarrow> scan_rows rs (append_slice todos t))"

text \<open>\<open>PostgresStore.ListTodos\<close>.\<close>

definition PostgresStore_ListTodos ::
  "ctx \<Rightarrow> todos_table \<Rightarrow> (Todo slice \<times> error option) \<times> todos_table" where
  "PostgresStore_ListTodos c tbl =
     (case select_all c tbl of
        Inl err \<Rightarrow> ((None, Some (Errorf_w ''storage: falha ao listar todos: '' err)), tbl)
      | Inr rows \<Rightarrow>
          (let delivered = (case rows_err c of None \<Rightarrow> rows | Some (k, e) \<Rightarrow> take k rows) in
           case scan_rows delivered None of
             Inl err \<Rightarrow> ((None, Some err), tbl)
           | Inr todos \<Rightarrow>
               (case rows_err c of
                  Some (k, err) \<Rightarrow>
                    ((None, Some (Errorf_w (''storage: erro durante itera'' @ c_cedil @ a_tilde
                        @ ''o das linhas de todos: '') err)), tbl)
                | None \<Rightarrow> ((todos, None), tbl))))"

text \<open>\<open>PostgresStore.UpdateTodo\<close>.\<close>

definition PostgresStore_UpdateTodo ::
  "ctx \<Rightarrow> string \<Rightarrow> Todo \<Rightarrow> todos_table \<Rightarrow> (Todo option \<times> error option) \<times> todos_table" where
  "PostgresStore_UpdateTodo c i t tbl =
     (case update_todo c (Title t) (Description t) (Completed t) i tbl of (res, tbl') \<Rightarrow>
        (case QueryRow_Scan res Scan of
           Inl err \<Rightarrow>
             (if err = ErrNoRows
              then ((None, Some (Errorf_w (''storage: imposs'' @ i_acute @ ''vel atualizar, todo com id ''
                      @ apos @ i @ apos @ '' '' @ nao_encontrado @ '': '') err)), tbl')
              else ((None, Some (Errorf_w ''storage: falha ao atualizar todo: '' err)), tbl'))
         | Inr updatedTodo \<Rightarrow> ((Some updatedTodo, None), tbl')))"

text \<open>\<open>PostgresStore.DeleteTodo\<close>.\<close>

definition PostgresStore_DeleteTodo :: "ctx \<Rightarrow> string \<Rightarrow> todos_table \<Rightarrow> error option \<times> todos_table" where
  "PostgresStore_DeleteTodo c i tbl =
     (case delete_todo c i tbl of
        (Inl err, tbl') \<Rightarrow> (Some (Errorf_w ''storage: falha ao deletar todo: '' err), tbl')
      | (Inr n, tbl') \<Rightarrow>
          (case affected_err c of
             Some err \<Rightarrow>
               (Some (Errorf_w ''storage: falha ao verificar linhas afetadas ao deletar: '' err), tbl')
           | None \<Rightarrow>
               (if n = 0
                then (Some (Err (''storage: imposs'' @ i_acute @ ''vel deletar, todo com id '' @ apos @ i
                        @ apos @ '' '' @ nao_encontrado)), tbl')
                else (None, tbl'))))"

text \<open>\<open>PostgresStore\<close> as a \<open>Store\<close>.\<close>

definition PostgresStore :: "(ctx, todos_table) Store" where
  "PostgresStore =
     \<lparr>CreateTodo = PostgresStore_CreateTodo, GetTodo = PostgresStore_GetTodo,
      ListTodos = PostgresStore_ListTodos, UpdateTodo = PostgresStore_UpdateTodo,
      DeleteTodo = PostgresStore_DeleteTodo\<rparr>"

text \<open>
  A run of \<open>CreateTodo\<close> calls, one after the other, each with its own context:
  the table they leave, and \<open>None\<close> when one of them returns an error.
\<close>

fun create_all :: "(ctx \<times> Todo) list \<Rightarrow> todos_table \<Rightarrow> todos_table option" where
  "create_all [] tbl = Some tbl"
| "create_all ((c, t) # cs) tbl =
     (case PostgresStore_CreateTodo c t tbl of
        ((created, Some err), tbl') \<Rightarrow> None
      | ((created, None), tbl') \<Rightarrow> create_all cs tbl')"

section \<open>The HTTP layer (internal/api)\<close>

subsection \<open>What the handlers use of net/http and encoding/json\<close>

text \<open>
  A request: its method, the path of its URL, its body and its context.
\<close>

record 'c Request =
  Method :: string
  Path :: string
  Body :: string
  Context :: 'c

text \<open>
  The \<open>http.ResponseWriter\<close> the server hands to a handler, with the method of the
  request it answers. \<open>WriteHeader\<close> fixes the status once; \<open>Write\<close> sends the status
  200 first when none was sent, and the server drops the bytes when the status admits no
  body (1xx, 204, 304) or the request is a \<open>HEAD\<close>.
\<close>

record ResponseWriter =
  reqMethod :: string
  header :: "string \<rightharpoonup> string"
  wroteHeader :: bool
  status :: int
  body :: string

definition newResponseWriter :: "'c Request \<Rightarrow> ResponseWriter" where
  "newResponseWriter r =
     \<lparr>reqMethod = Method r, header = Map.empty, wroteHeader = False, status = 0, body = []\<rparr>"

definition Header_Set :: "ResponseWriter \<Rightarrow> string \<Rightarrow> string \<Rightarrow> ResponseWriter" where
  "Header_Set w k v = (if wroteHeader w then w else w\<lparr>header := (header w)(k \<mapsto> v)\<rparr>)"

definition WriteHeader :: "ResponseWriter \<Rightarrow> int \<Rightarrow> ResponseWriter" where
  "WriteHeader w code = (if wroteHeader w then w else w\<lparr>wroteHeader := True, status := code\<rparr>)"

definition bodyAllowedForStatus :: "int \<Rightarrow> bool" where
  "bodyAllowedForStatus code =
     (if 100 \<le> code \<and> code \<le> 199 then False
      else if code = 204 then False
      else if code = 304 then False
      else True)"

definition Write :: "ResponseWriter \<Rightarrow> string \<Rightarrow> ResponseWriter" where
  "Write w0 bytes =
     (let w = (if wroteHeader w0 then w0 else WriteHeader w0 200) in
      if \<not> bodyAllowedForStatus (status w) then w
      else if reqMethod w = ''HEAD'' then w
      else w\<lparr>body := body w @ bytes\<rparr>)"

text \<open>\<open>http.Error\<close>.\<close>

definition http_Error :: "ResponseWriter \<Rightarrow> string \<Rightarrow> int \<Rightarrow> ResponseWriter" where
  "http_Error w msg code =
     Write (WriteHeader (Header_Set (Header_Set w ''Content-Type'' ''text/plain; charset=utf-8'')
                           ''X-Content-Type-Options'' ''nosniff'') code)
           (msg @ [CHR 0x0A])"

text \<open>
  The part of \<open>encoding/json\<close> that depends on the text of a value is a parameter:
  \<open>Decode\<close> is \<open>json.NewDecoder(body).Decode\<close> into a zero \<open>todo.Todo\<close>,
  \<open>marshalTodo\<close> is \<open>json.Marshal\<close> of one \<open>todo.Todo\<close> (it fails on a time it cannot
  print) and \<open>marshalString\<close> is \<open>json.Marshal\<close> of a string.
\<close>

record json =
  Decode :: "string \<Rightarrow> error + Todo"
  marshalTodo :: "Todo \<Rightarrow> error + string"
  marshalString :: "string \<Rightarrow> string"

text \<open>
  The values the handlers pass as \<open>payload\<close>: the untyped \<open>nil\<close>, a \<open>*todo.Todo\<close>,
  a \<open>[]todo.Todo\<close> and the map \<open>{"error": message}\<close>.
\<close>

datatype payload = NilValue | TodoPtr "Todo option" | TodoSlice "Todo slice" | ErrorMap string

fun marshal_elems :: "json \<Rightarrow> Todo list \<Rightarrow> error + string list" where
  "marshal_elems J [] = Inr []"
| "marshal_elems J (t # ts) =
     (case marshalTodo J t of
        Inl err \<Rightarrow> Inl err
      | Inr s \<Rightarrow> (case marshal_elems J ts of Inl err \<Rightarrow> Inl err | Inr ss \<Rightarrow> Inr (s # ss)))"

fun join :: "string list \<Rightarrow> string \<Rightarrow> string" where
  "join [] sep = []"
| "join [s] sep = s"
| "join (s # ss) sep = s @ sep @ join ss sep"

text \<open>
  \<open>json.Marshal\<close> on a payload: \<open>nil\<close>, a \<open>nil\<close> pointer and a \<open>nil\<close> slice are
  the four bytes \<open>null\<close>; a slice that is not \<open>nil\<close> is an array.
\<close>

fun json_Marshal :: "json \<Rightarrow> payload \<Rightarrow> error + string" where
  "json_Marshal J NilValue = Inr ''null''"
| "json_Marshal J (TodoPtr None) = Inr ''null''"
| "json_Marshal J (TodoPtr (Some t)) = marshalTodo J t"
| "json_Marshal J (TodoSlice None) = Inr ''null''"
| "json_Marshal J (TodoSlice (Some ts)) =
     (case marshal_elems J ts of
        Inl err \<Rightarrow> Inl err
      | Inr ss \<Rightarrow> Inr (''['' @ join ss '','' @ '']''))"
| "json_Marshal J (ErrorMap message) =
     Inr (''{'' @ dquote @ ''error'' @ dquote @ '':'' @ marshalString J message @ ''}'')"

subsection \<open>Responses\<close>

text \<open>\<open>respondWithJSON\<close>.\<close>

definition respondWithJSON :: "json \<Rightarrow> ResponseWriter \<Rightarrow> int \<Rightarrow> payload \<Rightarrow> ResponseWriter" where
  "respondWithJSON J w code p =
     (case json_Marshal J p of
        Inl err \<Rightarrow> http_Error w ''Erro ao gerar resposta JSON'' 500
      | Inr response \<Rightarrow>
          Write (WriteHeader (Header_Set w ''Content-Type'' ''application/json'') code) response)"

text \<open>
  \<open>respondWithError\<close>. The line it logs first touches neither the response nor the
  store and is left out.
\<close>

definition respondWithError :: "json \<Rightarrow> ResponseWriter \<Rightarrow> int \<Rightarrow> string \<Rightarrow> ResponseWriter" where
  "respondWithError J w code message = respondWithJSON J w code (ErrorMap message)"

subsection \<open>Handlers\<close>

text \<open>
  A handler takes the codec, the store of the \<open>APIServer\<close>, the response writer, the
  request and the state behind the store, and returns the response writer and that state.
\<close>

definition handleCreateTodo ::
  "json \<Rightarrow> ('c, 's) Store \<Rightarrow> ResponseWriter \<Rightarrow> 'c Request \<Rightarrow> 's \<Rightarrow> ResponseWriter \<times> 's" where
  "handleCreateTodo J store w r s =
     (case Decode J (Body r) of
        Inl err \<Rightarrow> (respondWithError J w 400 (''Payload da requisi'' @ c_cedil @ a_tilde @ ''o inv''
                       @ a_acute @ ''lido''), s)
      | Inr newTodo \<Rightarrow>
          (if Title newTodo = []
           then (respondWithError J w 400 (''O t'' @ i_acute @ ''tulo '' @ e_acute @ '' obrigat''
                   @ o_acute @ ''rio''), s)
           else
             (case CreateTodo store (Context r) newTodo s of
                ((createdTodo, Some err), s') \<Rightarrow>
                  (respondWithError J w 500 ''Falha ao criar to-do'', s')
              | ((createdTodo, None), s') \<Rightarrow>
                  (respondWithJSON J w 201 (TodoPtr createdTodo), s'))))"

definition handleListTodos ::
  "json \<Rightarrow> ('c, 's) Store \<Rightarrow> ResponseWriter \<Rightarrow> 'c Request \<Rightarrow> 's \<Rightarrow> ResponseWriter \<times> 's" where
  "handleListTodos J store w r s =
     (case ListTodos store (Context r) s of
        ((todos, Some err), s') \<Rightarrow> (respondWithError J w 500 ''Falha ao listar to-dos'', s')
      | ((todos, None), s') \<Rightarrow>
          (let todos = (if todos = None then Some [] else todos)
           in (respondWithJSON J w 200 (TodoSlice todos), s')))"

definition handleGetTodo ::
  "json \<Rightarrow> ('c, 's) Store \<Rightarrow> ResponseWriter \<Rightarrow> 'c Request \<Rightarrow> string \<Rightarrow> 's \<Rightarrow> ResponseWriter \<times> 's" where
  "handleGetTodo J store w r i s =
     (case GetTodo store (Context r) i s of
        ((foundTodo, Some err), s') \<Rightarrow>
          (if Contains (Error err) nao_encontrado
           then (respondWithError J w 404 (''To-do '' @ nao_encontrado), s')
           else (respondWithError J w 500 ''Falha ao buscar to-do'', s'))
      | ((foundTodo, None), s') \<Rightarrow> (respondWithJSON J w 200 (TodoPtr foundTodo), s'))"

definition handleUpdateTodo ::
  "json \<Rightarrow> ('c, 's) Store \<Rightarrow> ResponseWriter \<Rightarrow> 'c Request \<Rightarrow> string \<Rightarrow> 's \<Rightarrow> ResponseWriter \<times> 's" where
  "handleUpdateTodo J store w r i s =
     (case Decode J (Body r) of
        Inl err \<Rightarrow> (respondWithError J w 400 (''Payload da requisi'' @ c_cedil @ a_tilde @ ''o inv''
                       @ a_acute @ ''lido''), s)
      | Inr updatedTodo \<Rightarrow>
          (if Title updatedTodo = []
           then (respondWithError J w 400 (''O t'' @ i_acute @ ''tulo '' @ e_acute @ '' obrigat''
                   @ o_acute @ ''rio''), s)
           else
             (case UpdateTodo store (Context r) i updatedTodo s of
                ((result, Some err), s') \<Rightarrow>
                  (if Contains (Error err) nao_encontrado
                   then (respondWithError J w 404 (''To-do '' @ nao_encontrado @ '' para atualizar''), s')
                   else (respondWithError J w 500 ''Falha ao atualizar to-do'', s'))
              | ((result, None), s') \<Rightarrow> (respondWithJSON J w 200 (TodoPtr result), s'))))"

definition handleDeleteTodo ::
  "json \<Rightarrow> ('c, 's) Store \<Rightarrow> ResponseWriter \<Rightarrow> 'c Request \<Rightarrow> string \<Rightarrow> 's \<Rightarrow> ResponseWriter \<times> 's" where
  "handleDeleteTodo J store w r i s =
     (case DeleteTodo store (Context r) i s of
        (Some err, s') \<Rightarrow>
          (if Contains (Error err) nao_encontrado
           then (respondWithError J w 404 (''To-do '' @ nao_encontrado @ '' para deletar''), s')
           else (respondWithError J w 500 ''Falha ao deletar to-do'', s'))
      | (None, s') \<Rightarrow> (respondWithJSON J w 204 NilValue, s'))"

subsection \<open>Dispatchers\<close>

text \<open>\<open>handleTodos\<close>, registered for the pattern \<open>/todos\<close>.\<close>

definition handleTodos ::
  "json \<Rightarrow> ('c, 's) Store \<Rightarrow> ResponseWriter \<Rightarrow> 'c Request \<Rightarrow> 's \<Rightarrow> ResponseWriter \<times> 's" where
  "handleTodos J store w r s =
     (if Method r = ''GET'' then handleListTodos J store w r s
      else if Method r = ''POST'' then handleCreateTodo J store w r s
      else (respondWithError J w 405 (''M'' @ e_acute @ ''todo n'' @ a_tilde @ ''o permitido''), s))"

text \<open>
  \<open>handleTodoByID\<close>, registered for the pattern \<open>/todos/\<close>: the identifier is what
  is left of the path after the prefix, and it is checked before the method.
\<close>

definition handleTodoByID ::
  "json \<Rightarrow> ('c, 's) Store \<Rightarrow> ResponseWriter \<Rightarrow> 'c Request \<Rightarrow> 's \<Rightarrow> ResponseWriter \<times> 's" where
  "handleTodoByID J store w r s =
     (let i = TrimPrefix (Path r) ''/todos/'' in
      if i = [] then (respondWithError J w 400 (''ID do To-Do n'' @ a_tilde @ ''o pode ser vazio''), s)
      else if Method r = ''GET'' then handleGetTodo J store w r i s
      else if Method r = ''PUT'' then handleUpdateTodo J store w r i s
      else if Method r = ''DELETE'' then handleDeleteTodo J store w r i s
      else (respondWithError J w 405 (''M'' @ e_acute @ ''todo n'' @ a_tilde @ ''o permitido''), s))"

section \<open>Values for the examples\<close>

text \<open>
  Concrete values at which the theorems below are applied. \<open>example_json\<close> is a stand-in
  codec: it reads a body \<open>title#id\<close> as a payload with that title and identifier, and
  fails on an opening brace alone. \<open>example_ctx\<close> is a call that meets no failure.
\<close>

definition example_json :: json where
  "example_json =
     \<lparr>Decode = (\<lambda>b. if b = ''{'' then Inl (Err ''unexpected EOF'')
                      else Inr \<lparr>ID = drop 1 (dropWhile (\<lambda>c. c \<noteq> CHR ''#'') b),
                                Title = takeWhile (\<lambda>c. c \<noteq> CHR ''#'') b,
                                Description = [], Completed = False,
                                CreatedAt = 0, UpdatedAt = 0\<rparr>),
      marshalTodo = (\<lambda>t. Inr (ID t @ '':'' @ Title t)),
      marshalString = (\<lambda>s. dquote @ s @ dquote)\<rparr>"

definition example_ctx :: ctx where
  "example_ctx =
     \<lparr>query_err = None, rows_err = None, affected_err = None, now = 7, gen_random_uuid = ''u2''\<rparr>"

definition example_row :: row where
  "example_row =
     \<lparr>id_col = ''u1'', title = ''buy milk'', description = Some [], completed = False,
      created_at = 3, updated_at = 3\<rparr>"

definition example_todo :: Todo where
  "example_todo =
     \<lparr>ID = ''mine'', Title = ''x'', Description = ''y'', Completed = True,
      CreatedAt = 1, UpdatedAt = 2\<rparr>"




definition example_row2 :: row where
  "example_row2 =
     \<lparr>id_col = ''u5'', title = ''walk dog'', description = Some ''soon'', completed = True,
      created_at = 9, updated_at = 12\<rparr>"

section \<open>Strings, responses and statements: auxiliary facts\<close>

text \<open>
  \<open>HasPrefix\<close> and \<open>Contains\<close> compute the prefix and the substring relation.
\<close>

lemma HasPrefix_iff: "HasPrefix s p \<longleftrightarrow> (\<exists>t. s = p @ t)"
  by (induction s p rule: HasPrefix.induct) auto



lemma TrimPrefix_append: "TrimPrefix (p @ t) p = t"
  by (simp add: TrimPrefix_def HasPrefix_iff)

lemma status_respondWithError:
  "\<not> wroteHeader w \<Longrightarrow> status (respondWithError J w code m) = code"
  by (simp add: respondWithError_def respondWithJSON_def Write_def WriteHeader_def Header_Set_def Let_def)

lemma status_respondWithError_new [simp]:
  "status (respondWithError J (newResponseWriter r) code m) = code"
  by (simp add: status_respondWithError newResponseWriter_def)

lemma respond_NilValue:
  "respondWithJSON J (newResponseWriter r) 204 NilValue =
     \<lparr>reqMethod = Method r, header = [''Content-Type'' \<mapsto> ''application/json''],
      wroteHeader = True, status = 204, body = []\<rparr>"
  by (simp add: respondWithJSON_def Write_def WriteHeader_def Header_Set_def Let_def
      newResponseWriter_def bodyAllowedForStatus_def)

text \<open>
  What \<open>respondWithJSON\<close> does with the payload \<open>nil\<close>: it hands the four bytes
  \<open>null\<close> to \<open>Write\<close>, which keeps them out of a response of status 204.
\<close>

lemma respondWithJSON_nil:
  "respondWithJSON J w code NilValue =
     Write (WriteHeader (Header_Set w ''Content-Type'' ''application/json'') code) ''null''"
  by (simp add: respondWithJSON_def)




lemma PostgresStore_DeleteTodo_existing:
  assumes "i \<in> set (map id_col tbl)" and "query_err c = None" and "affected_err c = None"
  shows "PostgresStore_DeleteTodo c i tbl = (None, filter (\<lambda>r. id_col r \<noteq> i) tbl)"
proof -
  from assms(1) have "filter (\<lambda>r. id_col r = i) tbl \<noteq> []"
    by (induction tbl) auto
  with assms(2,3) show ?thesis
    by (simp add: PostgresStore_DeleteTodo_def delete_todo_def)
qed

lemma find_filter: "find P xs = Some x \<Longrightarrow> \<exists>ys. filter P xs = x # ys"
  by (induction xs) (auto split: if_splits)

text \<open>
  Scanning the rows of a result, and the order of \<open>ORDER BY created_at DESC\<close>.
\<close>

lemma Scan_fields:
  "Scan r = Inr t \<Longrightarrow> ID t = id_col r \<and> CreatedAt t = created_at r"
  by (auto simp: Scan_def split: option.splits)

lemma scan_rows_ok:
  "\<forall>r\<in>set rs. description r \<noteq> None \<Longrightarrow>
     \<exists>ts. map Scan rs = map Inr ts
        \<and> scan_rows rs acc = Inr (if rs = [] then acc else Some (items acc @ ts))"
proof (induction rs arbitrary: acc)
  case Nil
  then show ?case by simp
next
  case (Cons r rs)
  then obtain d where d: "description r = Some d" by auto
  let ?t = "\<lparr>ID = id_col r, Title = title r, Description = d, Completed = completed r,
             CreatedAt = created_at r, UpdatedAt = updated_at r\<rparr>"
  have s: "Scan r = Inr ?t" using d by (simp add: Scan_def)
  from Cons obtain ts where ts: "map Scan rs = map Inr ts"
    and r: "scan_rows rs (append_slice acc ?t) =
              Inr (if rs = [] then append_slice acc ?t else Some (items (append_slice acc ?t) @ ts))"
    by fastforce
  have i: "items (append_slice acc ?t) = items acc @ [?t]"
    and a: "append_slice acc ?t = Some (items acc @ [?t])"
    by (cases acc; simp)+
  have A: "map Scan (r # rs) = map Inr (?t # ts)" using s ts by simp
  have B: "scan_rows (r # rs) acc = Inr (if r # rs = [] then acc else Some (items acc @ ?t # ts))"
    using s r i a ts by (cases rs) auto
  from A B show ?case by blast
qed

lemma scanned_created_at:
  "map Scan rs = map Inr ts \<Longrightarrow> map CreatedAt ts = map created_at rs"
proof (induction rs arbitrary: ts)
  case Nil
  then show ?case by simp
next
  case (Cons r rs)
  then obtain t ts' where "ts = t # ts'" by (cases ts) auto
  with Cons show ?case by (auto simp: Scan_fields)
qed

lemma order_by_desc_sorted:
  "sorted_wrt (\<lambda>a b. created_at b \<le> created_at a) (order_by_created_at_desc tbl)"
proof -
  have "sorted (map (\<lambda>r. - created_at r) (order_by_created_at_desc tbl))"
    by (simp add: order_by_created_at_desc_def)
  then show ?thesis by (simp add: sorted_map)
qed

lemma create_all_rows:
  "create_all cs tbl0 = Some tbl \<Longrightarrow> \<forall>r\<in>set tbl0. description r \<noteq> None \<Longrightarrow>
     (\<forall>r\<in>set tbl. description r \<noteq> None) \<and> length tbl = length tbl0 + length cs"
proof (induction cs tbl0 rule: create_all.induct)
  case (1 tbl0)
  then show ?case by simp
next
  case (2 c t cs tbl0)
  from "2.prems"(1) obtain created tbl' where
    c: "PostgresStore_CreateTodo c t tbl0 = ((created, None), tbl')" and r: "create_all cs tbl' = Some tbl"
    by (auto split: prod.splits option.splits)
  from c have "\<exists>row. tbl' = tbl0 @ [row] \<and> description row \<noteq> None"
    by (auto simp: PostgresStore_CreateTodo_def insert_todo_def QueryRow_Scan_def Let_def
        split: option.splits if_splits)
  then obtain row where t': "tbl' = tbl0 @ [row]" and n: "description row \<noteq> None" by blast
  with "2.prems"(2) have "\<forall>r\<in>set tbl'. description r \<noteq> None" by auto
  with "2.IH" [OF c [symmetric] _ _ r] t' show ?case by simp
qed

lemma map_Inr_inj: "map Inr xs = map Inr ys \<Longrightarrow> xs = ys"
  by (simp add: inj_map_eq_map)

lemma Scan_rows_fields:
  "\<forall>r\<in>set rs. description r \<noteq> None \<Longrightarrow>
     map Scan rs =
       map Inr (map (\<lambda>r. \<lparr>ID = id_col r, Title = title r,
                           Description = (case description r of None \<Rightarrow> [] | Some d \<Rightarrow> d),
                           Completed = completed r, CreatedAt = created_at r,
                           UpdatedAt = updated_at r\<rparr>) rs)"
  by (induction rs) (auto simp: Scan_def)

lemma create_all_table:
  "create_all cs tbl0 = Some tbl \<Longrightarrow>
     tbl = tbl0 @ map (\<lambda>(c, t). \<lparr>id_col = gen_random_uuid c, title = Title t,
                                  description = Some (Description t), completed = Completed t,
                                  created_at = now c, updated_at = now c\<rparr>) cs"
proof (induction cs tbl0 rule: create_all.induct)
  case (1 tbl0)
  then show ?case by simp
next
  case (2 c t cs tbl0)
  from "2.prems" obtain created tbl' where
    c: "PostgresStore_CreateTodo c t tbl0 = ((created, None), tbl')" and r: "create_all cs tbl' = Some tbl"
    by (auto split: prod.splits option.splits)
  from c have t': "tbl' = tbl0 @ [\<lparr>id_col = gen_random_uuid c, title = Title t,
      description = Some (Description t), completed = Completed t,
      created_at = now c, updated_at = now c\<rparr>]"
    by (auto simp: PostgresStore_CreateTodo_def insert_todo_def QueryRow_Scan_def Let_def
        split: option.splits if_splits)
  from "2.IH" [OF c [symmetric] _ _ r] t' show ?case by simp
qed

text \<open>
  The store writes a text into \<open>description\<close> whenever it writes a row, so a table
  without \<open>NULL\<close> there stays so under its three writing methods.
\<close>

lemma writes_keep_descriptions:
  assumes "\<forall>r\<in>set tbl. description r \<noteq> None"
  shows "\<forall>r\<in>set (snd (PostgresStore_CreateTodo c t tbl)). description r \<noteq> None"
    and "\<forall>r\<in>set (snd (PostgresStore_UpdateTodo c i t tbl)). description r \<noteq> None"
    and "\<forall>r\<in>set (snd (PostgresStore_DeleteTodo c i tbl)). description r \<noteq> None"
  using assms
  by (auto simp: PostgresStore_CreateTodo_def insert_todo_def PostgresStore_UpdateTodo_def
      update_todo_def set_row_def PostgresStore_DeleteTodo_def delete_todo_def Let_def
      split: option.splits if_splits sum.splits list.splits prod.splits)

text \<open>
  The examples evaluated.
\<close>

lemma example_sorted:
  "order_by_created_at_desc [example_row, example_row2] = [example_row2, example_row]"
  by (simp add: order_by_created_at_desc_def example_row_def example_row2_def)

lemma example_creates:
  "create_all [(example_ctx, example_todo), (example_ctx\<lparr>gen_random_uuid := ''u3'', now := 8\<rparr>, example_todo)] [] =
     Some [\<lparr>id_col = ''u2'', title = ''x'', description = Some ''y'', completed = True,
            created_at = 7, updated_at = 7\<rparr>,
           \<lparr>id_col = ''u3'', title = ''x'', description = Some ''y'', completed = True,
            created_at = 8, updated_at = 8\<rparr>]"
  by (simp add: PostgresStore_CreateTodo_def insert_todo_def QueryRow_Scan_def Let_def
      example_ctx_def example_todo_def)

section \<open>Error handling of the HTTP layer\<close>

text \<open>
  Claim C1. On an item route, when the store call of a GET, PUT or DELETE returns an
  error, the response is 404 exactly when the message of the error contains the
  not-found text, and 500 for every other store error. This holds for every
  implementation of \<open>Store\<close>; the PUT reaches the store when its body decodes to a
  payload with a title.
\<close>

theorem store_error_status:
  fixes store :: "('c, 's) Store"
  assumes "TrimPrefix (Path r) ''/todos/'' = i" and "i \<noteq> []"
  shows "(Method r = ''GET'' \<longrightarrow> GetTodo store (Context r) i s = ((v, Some err), s') \<longrightarrow>
            status (fst (handleTodoByID J store (newResponseWriter r) r s)) =
              (if Contains (Error err) nao_encontrado then 404 else 500))
       \<and> (Method r = ''PUT'' \<longrightarrow> Decode J (Body r) = Inr t \<longrightarrow> Title t \<noteq> [] \<longrightarrow>
            UpdateTodo store (Context r) i t s = ((v, Some err), s') \<longrightarrow>
            status (fst (handleTodoByID J store (newResponseWriter r) r s)) =
              (if Contains (Error err) nao_encontrado then 404 else 500))
       \<and> (Method r = ''DELETE'' \<longrightarrow> DeleteTodo store (Context r) i s = (Some err, s') \<longrightarrow>
            status (fst (handleTodoByID J store (newResponseWriter r) r s)) =
              (if Contains (Error err) nao_encontrado then 404 else 500))"
  using assms
  by (simp add: handleTodoByID_def handleGetTodo_def handleUpdateTodo_def handleDeleteTodo_def)

theorem store_error_status_witness:
  "status (fst (handleTodoByID example_json PostgresStore
      (newResponseWriter \<lparr>Method = ''GET'', Path = ''/todos/u9'', Body = [], Context = example_ctx\<rparr>)
      \<lparr>Method = ''GET'', Path = ''/todos/u9'', Body = [], Context = example_ctx\<rparr> [example_row])) = 404
   \<and> status (fst (handleTodoByID example_json PostgresStore
      (newResponseWriter \<lparr>Method = ''PUT'', Path = ''/todos/u1'', Body = ''x'',
         Context = example_ctx\<lparr>query_err := Some (Err ''connection refused'')\<rparr>\<rparr>)
      \<lparr>Method = ''PUT'', Path = ''/todos/u1'', Body = ''x'',
         Context = example_ctx\<lparr>query_err := Some (Err ''connection refused'')\<rparr>\<rparr> [example_row])) = 500
   \<and> status (fst (handleTodoByID example_json PostgresStore
      (newResponseWriter \<lparr>Method = ''DELETE'', Path = ''/todos/u9'', Body = [], Context = example_ctx\<rparr>)
      \<lparr>Method = ''DELETE'', Path = ''/todos/u9'', Body = [], Context = example_ctx\<rparr> [example_row])) = 404"
proof -
  let ?get = "\<lparr>Method = ''GET'', Path = ''/todos/u9'', Body = [], Context = example_ctx\<rparr>"
  let ?put = "\<lparr>Method = ''PUT'', Path = ''/todos/u1'', Body = ''x'',
         Context = example_ctx\<lparr>query_err := Some (Err ''connection refused'')\<rparr>\<rparr>"
  let ?del = "\<lparr>Method = ''DELETE'', Path = ''/todos/u9'', Body = [], Context = example_ctx\<rparr>"
  let ?x = "\<lparr>ID = [], Title = ''x'', Description = [], Completed = False, CreatedAt = 0, UpdatedAt = 0\<rparr>"
  let ?e1 = "Wrap (''storage: todo com id '' @ apos @ ''u9'' @ apos @ '' '' @ nao_encontrado
     @ '': sql: no rows in result set'') ErrNoRows"
  let ?e2 = "Wrap ''storage: falha ao atualizar todo: connection refused'' (Err ''connection refused'')"
  let ?e3 = "Err (''storage: imposs'' @ i_acute @ ''vel deletar, todo com id '' @ apos @ ''u9''
     @ apos @ '' '' @ nao_encontrado)"
  have g: "GetTodo PostgresStore (Context ?get) ''u9'' [example_row] = ((None, Some ?e1), [example_row])"
    by (simp add: PostgresStore_def PostgresStore_GetTodo_def select_by_id_def QueryRow_Scan_def
        example_ctx_def example_row_def Errorf_w_def)
  have p: "UpdateTodo PostgresStore (Context ?put) ''u1'' ?x [example_row] = ((None, Some ?e2), [example_row])"
    by (simp add: PostgresStore_def PostgresStore_UpdateTodo_def update_todo_def QueryRow_Scan_def
        example_ctx_def Errorf_w_def)
  have d: "DeleteTodo PostgresStore (Context ?del) ''u9'' [example_row] = (Some ?e3, [example_row])"
    by (simp add: PostgresStore_def PostgresStore_DeleteTodo_def delete_todo_def
        example_ctx_def example_row_def)
  have t9: "TrimPrefix (Path ?get) ''/todos/'' = ''u9''" "TrimPrefix (Path ?del) ''/todos/'' = ''u9''"
    and t1: "TrimPrefix (Path ?put) ''/todos/'' = ''u1''"
    by (simp_all add: TrimPrefix_def)
  have dec: "Decode example_json (Body ?put) = Inr ?x"
    by (simp add: example_json_def)
  have c1: "Contains (Error ?e1) nao_encontrado" by simp
  have c2: "\<not> Contains (Error ?e2) nao_encontrado" by simp
  have c3: "Contains (Error ?e3) nao_encontrado" by simp
  have 1: "status (fst (handleTodoByID example_json PostgresStore (newResponseWriter ?get) ?get [example_row])) = 404"
    using store_error_status [where r = ?get and i = "''u9''" and store = PostgresStore
        and s = "[example_row]" and v = None and err = ?e1 and s' = "[example_row]" and J = example_json]
      g t9 c1 by simp
  have 2: "status (fst (handleTodoByID example_json PostgresStore (newResponseWriter ?put) ?put [example_row])) = 500"
    using store_error_status [where r = ?put and i = "''u1''" and store = PostgresStore
        and s = "[example_row]" and v = None and err = ?e2 and s' = "[example_row]" and J = example_json
        and t = ?x]
      p t1 c2 dec by simp
  have 3: "status (fst (handleTodoByID example_json PostgresStore (newResponseWriter ?del) ?del [example_row])) = 404"
    using store_error_status [where r = ?del and i = "''u9''" and store = PostgresStore
        and s = "[example_row]" and err = ?e3 and s' = "[example_row]" and J = example_json]
      d t9 c3 by simp
  from 1 2 3 show ?thesis by simp
qed

text \<open>
  Claim C4. A create or an update whose decoded payload has an empty title is answered
  with 400 and the store is not called: the state behind the store is returned as it
  was, and the handler's result is the same whatever the store is.
\<close>

theorem empty_title_rejected:
  fixes store store2 :: "('c, 's) Store"
  assumes "Decode J (Body r) = Inr t" and "Title t = []"
  shows "status (fst (handleCreateTodo J store (newResponseWriter r) r s)) = 400
       \<and> snd (handleCreateTodo J store (newResponseWriter r) r s) = s
       \<and> handleCreateTodo J store w r s = handleCreateTodo J store2 w r s
       \<and> status (fst (handleUpdateTodo J store (newResponseWriter r) r i s)) = 400
       \<and> snd (handleUpdateTodo J store (newResponseWriter r) r i s) = s
       \<and> handleUpdateTodo J store w r i s = handleUpdateTodo J store2 w r i s"
  using assms
  by (simp add: handleCreateTodo_def handleUpdateTodo_def)

theorem empty_title_rejected_witness:
  "Decode example_json ''#u7'' =
     Inr \<lparr>ID = ''u7'', Title = [], Description = [], Completed = False, CreatedAt = 0, UpdatedAt = 0\<rparr>
   \<and> status (fst (handleCreateTodo example_json PostgresStore
        (newResponseWriter \<lparr>Method = ''POST'', Path = ''/todos'', Body = ''#u7'', Context = example_ctx\<rparr>)
        \<lparr>Method = ''POST'', Path = ''/todos'', Body = ''#u7'', Context = example_ctx\<rparr> [example_row])) = 400
   \<and> snd (handleCreateTodo example_json PostgresStore
        (newResponseWriter \<lparr>Method = ''POST'', Path = ''/todos'', Body = ''#u7'', Context = example_ctx\<rparr>)
        \<lparr>Method = ''POST'', Path = ''/todos'', Body = ''#u7'', Context = example_ctx\<rparr> [example_row]) = [example_row]
   \<and> status (fst (handleUpdateTodo example_json PostgresStore
        (newResponseWriter \<lparr>Method = ''PUT'', Path = ''/todos/u1'', Body = ''#u7'', Context = example_ctx\<rparr>)
        \<lparr>Method = ''PUT'', Path = ''/todos/u1'', Body = ''#u7'', Context = example_ctx\<rparr> ''u1'' [example_row])) = 400
   \<and> snd (handleUpdateTodo example_json PostgresStore
        (newResponseWriter \<lparr>Method = ''PUT'', Path = ''/todos/u1'', Body = ''#u7'', Context = example_ctx\<rparr>)
        \<lparr>Method = ''PUT'', Path = ''/todos/u1'', Body = ''#u7'', Context = example_ctx\<rparr> ''u1'' [example_row]) = [example_row]"
proof -
  let ?post = "\<lparr>Method = ''POST'', Path = ''/todos'', Body = ''#u7'', Context = example_ctx\<rparr>"
  let ?put = "\<lparr>Method = ''PUT'', Path = ''/todos/u1'', Body = ''#u7'', Context = example_ctx\<rparr>"
  let ?t = "\<lparr>ID = ''u7'', Title = [], Description = [], Completed = False, CreatedAt = 0, UpdatedAt = 0\<rparr>"
  have d: "Decode example_json ''#u7'' = Inr ?t" by (simp add: example_json_def)
  then have d1: "Decode example_json (Body ?post) = Inr ?t"
    and d2: "Decode example_json (Body ?put) = Inr ?t" by simp_all
  have e: "Title ?t = []" by simp
  from empty_title_rejected [OF d1 e, of PostgresStore "[example_row]" "newResponseWriter ?post"
      PostgresStore "''u1''"]
    empty_title_rejected [OF d2 e, of PostgresStore "[example_row]" "newResponseWriter ?put"
      PostgresStore "''u1''"] d
  show ?thesis by simp
qed

text \<open>
  Claim C9. A method outside the mapping of the collection path, or of an item path with
  an identifier, is answered with 405; an item-route request whose identifier (the rest
  of the path after the prefix) is empty is answered with 400, whatever its method,
  since \<open>handleTodoByID\<close> checks the identifier first.
\<close>

theorem routing_rejections:
  fixes store :: "('c, 's) Store"
  shows "(Method r \<noteq> ''GET'' \<longrightarrow> Method r \<noteq> ''POST'' \<longrightarrow>
            status (fst (handleTodos J store (newResponseWriter r) r s)) = 405)
       \<and> (TrimPrefix (Path r) ''/todos/'' \<noteq> [] \<longrightarrow>
            Method r \<noteq> ''GET'' \<longrightarrow> Method r \<noteq> ''PUT'' \<longrightarrow> Method r \<noteq> ''DELETE'' \<longrightarrow>
            status (fst (handleTodoByID J store (newResponseWriter r) r s)) = 405)
       \<and> (TrimPrefix (Path r) ''/todos/'' = [] \<longrightarrow>
            status (fst (handleTodoByID J store (newResponseWriter r) r s)) = 400)"
  by (simp add: handleTodos_def handleTodoByID_def)

theorem routing_rejections_witness:
  "status (fst (handleTodos example_json PostgresStore
        (newResponseWriter \<lparr>Method = ''PATCH'', Path = ''/todos'', Body = [], Context = example_ctx\<rparr>)
        \<lparr>Method = ''PATCH'', Path = ''/todos'', Body = [], Context = example_ctx\<rparr> [example_row])) = 405
   \<and> status (fst (handleTodoByID example_json PostgresStore
        (newResponseWriter \<lparr>Method = ''POST'', Path = ''/todos/u1'', Body = [], Context = example_ctx\<rparr>)
        \<lparr>Method = ''POST'', Path = ''/todos/u1'', Body = [], Context = example_ctx\<rparr> [example_row])) = 405
   \<and> status (fst (handleTodoByID example_json PostgresStore
        (newResponseWriter \<lparr>Method = ''GET'', Path = ''/todos/'', Body = [], Context = example_ctx\<rparr>)
        \<lparr>Method = ''GET'', Path = ''/todos/'', Body = [], Context = example_ctx\<rparr> [example_row])) = 400
   \<and> status (fst (handleTodoByID example_json PostgresStore
        (newResponseWriter \<lparr>Method = ''PATCH'', Path = ''/todos/'', Body = [], Context = example_ctx\<rparr>)
        \<lparr>Method = ''PATCH'', Path = ''/todos/'', Body = [], Context = example_ctx\<rparr> [example_row])) = 400"
proof -
  let ?a = "\<lparr>Method = ''PATCH'', Path = ''/todos'', Body = [], Context = example_ctx\<rparr>"
  let ?b = "\<lparr>Method = ''POST'', Path = ''/todos/u1'', Body = [], Context = example_ctx\<rparr>"
  let ?c = "\<lparr>Method = ''GET'', Path = ''/todos/'', Body = [], Context = example_ctx\<rparr>"
  let ?d = "\<lparr>Method = ''PATCH'', Path = ''/todos/'', Body = [], Context = example_ctx\<rparr>"
  have t: "TrimPrefix (Path ?b) ''/todos/'' = ''u1''" "TrimPrefix (Path ?c) ''/todos/'' = []"
    "TrimPrefix (Path ?d) ''/todos/'' = []"
    by (simp_all add: TrimPrefix_def)
  from routing_rejections [of ?a example_json PostgresStore "[example_row]"]
    routing_rejections [of ?b example_json PostgresStore "[example_row]"]
    routing_rejections [of ?c example_json PostgresStore "[example_row]"]
    routing_rejections [of ?d example_json PostgresStore "[example_row]"] t
  show ?thesis by simp
qed

text \<open>
  Claim C3. When the store deletes without error, the response has status 204 and an
  empty body, and the state is the one the store returned; on the item route a DELETE
  with an identifier is this handler.
\<close>

theorem delete_success_no_content:
  fixes store :: "('c, 's) Store"
  assumes "DeleteTodo store (Context r) i s = (None, s')"
  shows "status (fst (handleDeleteTodo J store (newResponseWriter r) r i s)) = 204
       \<and> body (fst (handleDeleteTodo J store (newResponseWriter r) r i s)) = []
       \<and> snd (handleDeleteTodo J store (newResponseWriter r) r i s) = s'
       \<and> (Method r = ''DELETE'' \<longrightarrow> TrimPrefix (Path r) ''/todos/'' = i \<longrightarrow> i \<noteq> [] \<longrightarrow>
            handleTodoByID J store (newResponseWriter r) r s =
              handleDeleteTodo J store (newResponseWriter r) r i s)"
  using assms
  by (simp add: handleDeleteTodo_def handleTodoByID_def respond_NilValue)

theorem delete_success_no_content_witness:
  "DeleteTodo PostgresStore example_ctx ''u1'' [example_row] = (None, [])
   \<and> status (fst (handleTodoByID example_json PostgresStore
        (newResponseWriter \<lparr>Method = ''DELETE'', Path = ''/todos/u1'', Body = [], Context = example_ctx\<rparr>)
        \<lparr>Method = ''DELETE'', Path = ''/todos/u1'', Body = [], Context = example_ctx\<rparr> [example_row])) = 204
   \<and> body (fst (handleTodoByID example_json PostgresStore
        (newResponseWriter \<lparr>Method = ''DELETE'', Path = ''/todos/u1'', Body = [], Context = example_ctx\<rparr>)
        \<lparr>Method = ''DELETE'', Path = ''/todos/u1'', Body = [], Context = example_ctx\<rparr> [example_row])) = []
   \<and> snd (handleTodoByID example_json PostgresStore
        (newResponseWriter \<lparr>Method = ''DELETE'', Path = ''/todos/u1'', Body = [], Context = example_ctx\<rparr>)
        \<lparr>Method = ''DELETE'', Path = ''/todos/u1'', Body = [], Context = example_ctx\<rparr> [example_row]) = []"
proof -
  let ?r = "\<lparr>Method = ''DELETE'', Path = ''/todos/u1'', Body = [], Context = example_ctx\<rparr>"
  have "PostgresStore_DeleteTodo example_ctx ''u1'' [example_row] =
          (None, filter (\<lambda>r. id_col r \<noteq> ''u1'') [example_row])"
    by (rule PostgresStore_DeleteTodo_existing) (simp_all add: example_row_def example_ctx_def)
  then have d: "DeleteTodo PostgresStore (Context ?r) ''u1'' [example_row] = (None, [])"
    by (simp add: PostgresStore_def example_row_def)
  have t: "TrimPrefix (Path ?r) ''/todos/'' = ''u1''" by (simp add: TrimPrefix_def)
  from delete_success_no_content [OF d, of example_json] d t show ?thesis by simp
qed

section \<open>The store on the table\<close>




text \<open>
  Claim C7. For a row with the identifier, \<open>UpdateTodo\<close> overwrites title,
  description and completion, sets the update timestamp to \<open>NOW()\<close> and returns the row
  so updated; identifiers and creation timestamps of all rows stay as they were, and
  rows with another identifier are untouched. The store does not look at the title; the
  handler has rejected an empty one before.
\<close>

theorem update_existing:
  assumes "query_err c = None" and "find (\<lambda>x. id_col x = i) tbl = Some r"
  shows "\<exists>tbl'. PostgresStore_UpdateTodo c i t tbl =
           ((Some \<lparr>ID = i, Title = Title t, Description = Description t, Completed = Completed t,
                   CreatedAt = created_at r, UpdatedAt = now c\<rparr>, None), tbl')
       \<and> tbl' = map (\<lambda>x. if id_col x = i
                          then x\<lparr>title := Title t, description := Some (Description t),
                                 completed := Completed t, updated_at := now c\<rparr>
                          else x) tbl
       \<and> map id_col tbl' = map id_col tbl
       \<and> map created_at tbl' = map created_at tbl"
proof -
  from assms(2) obtain ys where f: "filter (\<lambda>x. id_col x = i) tbl = r # ys"
    using find_filter by fastforce
  then have "r \<in> set (filter (\<lambda>x. id_col x = i) tbl)" by simp
  then have ri: "id_col r = i" by simp
  have "PostgresStore_UpdateTodo c i t tbl =
           ((Some \<lparr>ID = i, Title = Title t, Description = Description t, Completed = Completed t,
                   CreatedAt = created_at r, UpdatedAt = now c\<rparr>, None),
            map (\<lambda>x. if id_col x = i then set_row c (Title t) (Description t) (Completed t) x else x) tbl)"
    using assms(1) f ri
    by (simp add: PostgresStore_UpdateTodo_def update_todo_def QueryRow_Scan_def Scan_def set_row_def)
  moreover have "map id_col (map (\<lambda>x. if id_col x = i
      then set_row c (Title t) (Description t) (Completed t) x else x) tbl) = map id_col tbl"
    and "map created_at (map (\<lambda>x. if id_col x = i
      then set_row c (Title t) (Description t) (Completed t) x else x) tbl) = map created_at tbl"
    by (simp_all add: set_row_def)
  ultimately show ?thesis by (simp add: set_row_def)
qed

theorem update_existing_witness:
  "query_err example_ctx = None
   \<and> find (\<lambda>x. id_col x = ''u1'') [example_row2, example_row] = Some example_row
   \<and> PostgresStore_UpdateTodo example_ctx ''u1'' example_todo [example_row2, example_row] =
       ((Some \<lparr>ID = ''u1'', Title = ''x'', Description = ''y'', Completed = True,
               CreatedAt = 3, UpdatedAt = 7\<rparr>, None),
        [example_row2,
         \<lparr>id_col = ''u1'', title = ''x'', description = Some ''y'', completed = True,
          created_at = 3, updated_at = 7\<rparr>])"
proof -
  have h1: "query_err example_ctx = None" by (simp add: example_ctx_def)
  have h2: "find (\<lambda>x. id_col x = ''u1'') [example_row2, example_row] = Some example_row"
    by (simp add: example_row_def example_row2_def)
  from update_existing [OF h1 h2, of example_todo] h1 h2 show ?thesis
    by (simp add: example_todo_def example_row_def example_row2_def example_ctx_def)
qed

text \<open>
  Claim C8. A create that the database accepts returns a record whose identifier is the
  one the database generated and whose creation and update timestamps are equal (both
  the \<open>NOW()\<close> of the insert); and every record a create returns has these properties.
  The store does not look at the title; the handler has rejected an empty one before.
\<close>

theorem create_assigns:
  "(query_err c = None \<longrightarrow> gen_random_uuid c \<notin> set (map id_col tbl) \<longrightarrow>
      (\<exists>t'. PostgresStore_CreateTodo c t tbl =
           ((Some t', None),
            tbl @ [\<lparr>id_col = gen_random_uuid c, title = Title t, description = Some (Description t),
                    completed = Completed t, created_at = now c, updated_at = now c\<rparr>])
         \<and> ID t' = gen_random_uuid c \<and> CreatedAt t' = UpdatedAt t' \<and> CreatedAt t' = now c
         \<and> Title t' = Title t \<and> Description t' = Description t \<and> Completed t' = Completed t))
   \<and> (PostgresStore_CreateTodo c t tbl = ((Some created, None), tbl') \<longrightarrow>
        ID created = gen_random_uuid c \<and> CreatedAt created = UpdatedAt created)"
  by (auto simp: PostgresStore_CreateTodo_def insert_todo_def QueryRow_Scan_def Let_def
      split: option.splits if_splits)

theorem create_assigns_witness:
  "query_err example_ctx = None \<and> gen_random_uuid example_ctx \<notin> set (map id_col [example_row])
   \<and> PostgresStore_CreateTodo example_ctx example_todo [example_row] =
       ((Some \<lparr>ID = ''u2'', Title = ''x'', Description = ''y'', Completed = True,
               CreatedAt = 7, UpdatedAt = 7\<rparr>, None),
        [example_row,
         \<lparr>id_col = ''u2'', title = ''x'', description = Some ''y'', completed = True,
          created_at = 7, updated_at = 7\<rparr>])"
proof -
  have h1: "query_err example_ctx = None"
    and h2: "gen_random_uuid example_ctx \<notin> set (map id_col [example_row])"
    by (simp_all add: example_ctx_def example_row_def)
  from create_assigns [of example_ctx "[example_row]" example_todo] h1 h2
  obtain t' where "PostgresStore_CreateTodo example_ctx example_todo [example_row] =
           ((Some t', None),
            [example_row] @ [\<lparr>id_col = gen_random_uuid example_ctx, title = Title example_todo,
               description = Some (Description example_todo),
               completed = Completed example_todo, created_at = now example_ctx,
               updated_at = now example_ctx\<rparr>])"
    and "ID t' = gen_random_uuid example_ctx" and "CreatedAt t' = UpdatedAt t'"
    and "CreatedAt t' = now example_ctx"
    and "Title t' = Title example_todo" and "Description t' = Description example_todo"
    and "Completed t' = Completed example_todo"
    by blast
  then show ?thesis using h1 h2
    by (cases t') (simp add: example_ctx_def example_todo_def)
qed

text \<open>
  Claim C10. What a create inserts and returns does not depend on the \<open>id\<close>,
  \<open>createdAt\<close> and \<open>updatedAt\<close> of the payload: the store gives the same result and
  the same table for two payloads that differ in these fields only, and so does the
  handler for two bodies that decode to such payloads.
\<close>

theorem create_ignores_client_fields:
  "PostgresStore_CreateTodo c (t\<lparr>ID := i, CreatedAt := ca, UpdatedAt := ua\<rparr>) tbl =
     PostgresStore_CreateTodo c t tbl
   \<and> (Decode J (Body r1) = Inr t \<longrightarrow>
      Decode J (Body r2) = Inr (t\<lparr>ID := i, CreatedAt := ca, UpdatedAt := ua\<rparr>) \<longrightarrow>
      Context r1 = Context r2 \<longrightarrow>
      handleCreateTodo J PostgresStore w r1 tbl = handleCreateTodo J PostgresStore w r2 tbl)"
proof -
  have 1: "PostgresStore_CreateTodo c' (t\<lparr>ID := i, CreatedAt := ca, UpdatedAt := ua\<rparr>) tbl =
     PostgresStore_CreateTodo c' t tbl" for c'
    by (simp add: PostgresStore_CreateTodo_def)
  then show ?thesis
    by (simp add: handleCreateTodo_def PostgresStore_def)
qed

theorem create_ignores_client_fields_witness:
  "Decode example_json (Body \<lparr>Method = ''POST'', Path = ''/todos'', Body = ''x'', Context = example_ctx\<rparr>) =
     Inr \<lparr>ID = [], Title = ''x'', Description = [], Completed = False, CreatedAt = 0, UpdatedAt = 0\<rparr>
   \<and> Decode example_json (Body \<lparr>Method = ''POST'', Path = ''/todos'', Body = ''x#u1'', Context = example_ctx\<rparr>) =
     Inr \<lparr>ID = ''u1'', Title = ''x'', Description = [], Completed = False, CreatedAt = 0, UpdatedAt = 0\<rparr>
   \<and> handleCreateTodo example_json PostgresStore
        (newResponseWriter \<lparr>Method = ''POST'', Path = ''/todos'', Body = ''x'', Context = example_ctx\<rparr>)
        \<lparr>Method = ''POST'', Path = ''/todos'', Body = ''x'', Context = example_ctx\<rparr> [example_row] =
      handleCreateTodo example_json PostgresStore
        (newResponseWriter \<lparr>Method = ''POST'', Path = ''/todos'', Body = ''x'', Context = example_ctx\<rparr>)
        \<lparr>Method = ''POST'', Path = ''/todos'', Body = ''x#u1'', Context = example_ctx\<rparr> [example_row]"
proof -
  let ?r1 = "\<lparr>Method = ''POST'', Path = ''/todos'', Body = ''x'', Context = example_ctx\<rparr>"
  let ?r2 = "\<lparr>Method = ''POST'', Path = ''/todos'', Body = ''x#u1'', Context = example_ctx\<rparr>"
  let ?t = "\<lparr>ID = [], Title = ''x'', Description = [], Completed = False, CreatedAt = 0, UpdatedAt = 0\<rparr>"
  have d1: "Decode example_json (Body ?r1) = Inr ?t"
    and d2: "Decode example_json (Body ?r2) = Inr (?t\<lparr>ID := ''u1'', CreatedAt := 0, UpdatedAt := 0\<rparr>)"
    by (simp_all add: example_json_def)
  from create_ignores_client_fields [where J = example_json and ?r1.0 = ?r1 and ?r2.0 = ?r2 and t = ?t
      and i = "''u1''" and ca = 0 and ua = 0 and w = "newResponseWriter ?r1" and tbl = "[example_row]"]
    d1 d2
  show ?thesis by simp
qed

section \<open>Listing\<close>

text \<open>
  Claim C5, as stated, fails at the store: on an empty table \<open>ListTodos\<close> returns the
  \<open>nil\<close> slice, not an empty slice that is not \<open>nil\<close>.
\<close>

theorem list_empty_null_counterexample:
  "PostgresStore_ListTodos example_ctx [] = ((None, None), [])
   \<and> fst (fst (PostgresStore_ListTodos example_ctx [])) \<noteq> Some []"
  by (simp add: PostgresStore_ListTodos_def select_all_def order_by_created_at_desc_def example_ctx_def)

text \<open>
  Claim C5, amended. On an empty table, when the statement runs, \<open>ListTodos\<close> returns
  no error and the \<open>nil\<close> slice (of length 0). The handler of the collection GET puts
  an empty slice in the place of a \<open>nil\<close> one, so for a result of length 0 of any store
  it answers 200 with the JSON array \<open>[]\<close>, not \<open>null\<close>.
\<close>

theorem list_empty:
  fixes store :: "('c, 's) Store"
  shows "(query_err c = None \<longrightarrow> rows_err c = None \<longrightarrow>
            PostgresStore_ListTodos c [] = ((None, None), []))
       \<and> (ListTodos store (Context r) s = ((todos, None), s') \<longrightarrow> len todos = 0 \<longrightarrow>
            Method r = ''GET'' \<longrightarrow>
            handleTodos J store (newResponseWriter r) r s = (w, s'') \<longrightarrow>
            status w = 200 \<and> body w = ''[]'' \<and> s'' = s')"
proof -
  have 1: "PostgresStore_ListTodos c [] = ((None, None), [])"
    if "query_err c = None" and "rows_err c = None"
    using that
    by (simp add: PostgresStore_ListTodos_def select_all_def order_by_created_at_desc_def)
  have 2: "status w = 200 \<and> body w = ''[]'' \<and> s'' = s'"
    if l: "ListTodos store (Context r) s = ((todos, None), s')" and e: "len todos = 0"
      and g: "Method r = ''GET''"
      and h: "handleTodos J store (newResponseWriter r) r s = (w, s'')"
  proof -
    from e have "(if todos = None then Some [] else todos) = Some []"
      by (cases todos) auto
    with l g h have "w = respondWithJSON J (newResponseWriter r) 200 (TodoSlice (Some []))"
      and "s'' = s'"
      by (auto simp: handleTodos_def handleListTodos_def)
    moreover have "status (respondWithJSON J (newResponseWriter r) 200 (TodoSlice (Some []))) = 200"
      and "body (respondWithJSON J (newResponseWriter r) 200 (TodoSlice (Some []))) = ''[]''"
      using g
      by (simp_all add: respondWithJSON_def Write_def WriteHeader_def Header_Set_def Let_def
          newResponseWriter_def bodyAllowedForStatus_def)
    ultimately show ?thesis by simp
  qed
  from 1 2 show ?thesis by blast
qed

theorem list_empty_witness:
  "query_err example_ctx = None \<and> rows_err example_ctx = None
   \<and> PostgresStore_ListTodos example_ctx [] = ((None, None), [])
   \<and> status (fst (handleTodos example_json PostgresStore
        (newResponseWriter \<lparr>Method = ''GET'', Path = ''/todos'', Body = [], Context = example_ctx\<rparr>)
        \<lparr>Method = ''GET'', Path = ''/todos'', Body = [], Context = example_ctx\<rparr> [])) = 200
   \<and> body (fst (handleTodos example_json PostgresStore
        (newResponseWriter \<lparr>Method = ''GET'', Path = ''/todos'', Body = [], Context = example_ctx\<rparr>)
        \<lparr>Method = ''GET'', Path = ''/todos'', Body = [], Context = example_ctx\<rparr> [])) = ''[]''"
proof -
  let ?r = "\<lparr>Method = ''GET'', Path = ''/todos'', Body = [], Context = example_ctx\<rparr>"
  let ?h = "handleTodos example_json PostgresStore (newResponseWriter ?r) ?r []"
  have h1: "query_err example_ctx = None" and h2: "rows_err example_ctx = None"
    by (simp_all add: example_ctx_def)
  note th = list_empty [where c = example_ctx and store = PostgresStore and r = ?r and s = "[]"
      and todos = None and s' = "[]" and J = example_json and w = "fst ?h" and s'' = "snd ?h"]
  from th h1 h2 have l: "PostgresStore_ListTodos example_ctx [] = ((None, None), [])" by blast
  then have "ListTodos PostgresStore (Context ?r) [] = ((None, None), [])"
    by (simp add: PostgresStore_def)
  with th have "status (fst ?h) = 200 \<and> body (fst ?h) = ''[]''" by simp
  with h1 h2 l show ?thesis by simp
qed

text \<open>
  Claim C6. When the statement runs and no row holds \<open>NULL\<close> as description,
  \<open>ListTodos\<close> returns, for the rows of the table in the order of descending creation
  time (a rearrangement of the table, every row once), the records that carry the six
  columns of each row field by field; the records are in descending order of
  \<open>CreatedAt\<close> and as many as the rows. After \<open>n\<close> creates on the empty table that all
  succeeded, the table holds the \<open>n\<close> rows created, and \<open>ListTodos\<close> returns exactly
  \<open>n\<close> records, those of these rows.
\<close>

theorem list_all_desc:
  shows "(query_err c = None \<longrightarrow> rows_err c = None \<longrightarrow> (\<forall>r\<in>set tbl. description r \<noteq> None) \<longrightarrow>
           (\<exists>todos. PostgresStore_ListTodos c tbl = ((todos, None), tbl)
              \<and> items todos =
                  map (\<lambda>r. \<lparr>ID = id_col r, Title = title r,
                        Description = (case description r of None \<Rightarrow> [] | Some d \<Rightarrow> d),
                        Completed = completed r, CreatedAt = created_at r,
                        UpdatedAt = updated_at r\<rparr>)
                    (order_by_created_at_desc tbl)
              \<and> mset (order_by_created_at_desc tbl) = mset tbl
              \<and> sorted_wrt (\<lambda>a b. created_at b \<le> created_at a) (order_by_created_at_desc tbl)
              \<and> map Scan (order_by_created_at_desc tbl) = map Inr (items todos)
              \<and> mset (map Inr (items todos)) = mset (map Scan tbl)
              \<and> sorted_wrt (\<lambda>a b. CreatedAt b \<le> CreatedAt a) (items todos)
              \<and> len todos = length tbl))
       \<and> (query_err c = None \<longrightarrow> rows_err c = None \<longrightarrow> create_all cs [] = Some tbl' \<longrightarrow>
           tbl' = map (\<lambda>(c', t). \<lparr>id_col = gen_random_uuid c', title = Title t,
                                   description = Some (Description t), completed = Completed t,
                                   created_at = now c', updated_at = now c'\<rparr>) cs
           \<and> (\<exists>todos. PostgresStore_ListTodos c tbl' = ((todos, None), tbl')
                 \<and> items todos =
                     map (\<lambda>r. \<lparr>ID = id_col r, Title = title r,
                        Description = (case description r of None \<Rightarrow> [] | Some d \<Rightarrow> d),
                        Completed = completed r, CreatedAt = created_at r,
                        UpdatedAt = updated_at r\<rparr>)
                       (order_by_created_at_desc tbl')
                 \<and> len todos = length cs))"
proof -
  let ?F = "(\<lambda>r. \<lparr>ID = id_col r, Title = title r,
                        Description = (case description r of None \<Rightarrow> [] | Some d \<Rightarrow> d),
                        Completed = completed r, CreatedAt = created_at r,
                        UpdatedAt = updated_at r\<rparr>)"
  have main: "\<exists>todos. PostgresStore_ListTodos c tbl = ((todos, None), tbl)
              \<and> items todos = map ?F (order_by_created_at_desc tbl)
              \<and> mset (order_by_created_at_desc tbl) = mset tbl
              \<and> sorted_wrt (\<lambda>a b. created_at b \<le> created_at a) (order_by_created_at_desc tbl)
              \<and> map Scan (order_by_created_at_desc tbl) = map Inr (items todos)
              \<and> mset (map Inr (items todos)) = mset (map Scan tbl)
              \<and> sorted_wrt (\<lambda>a b. CreatedAt b \<le> CreatedAt a) (items todos)
              \<and> len todos = length tbl"
    if q: "query_err c = None" and e: "rows_err c = None"
      and n: "\<forall>r\<in>set tbl. description r \<noteq> None" for tbl
  proof -
    let ?rows = "order_by_created_at_desc tbl"
    have nn: "\<forall>r\<in>set ?rows. description r \<noteq> None"
      using n by (simp add: order_by_created_at_desc_def)
    from scan_rows_ok [OF this, of None] obtain ts where
      ts: "map Scan ?rows = map Inr ts"
      and sr: "scan_rows ?rows None = Inr (if ?rows = [] then None else Some ts)"
      by auto
    define todos where "todos = (if ?rows = [] then None else Some ts)"
    have l: "PostgresStore_ListTodos c tbl = ((todos, None), tbl)"
      using q e sr by (simp add: PostgresStore_ListTodos_def select_all_def todos_def)
    have len_ts: "length ts = length ?rows"
      using ts by (metis length_map)
    have len_rows: "length ?rows = length tbl"
      by (simp add: order_by_created_at_desc_def)
    have it: "items todos = ts"
      using len_ts by (auto simp: todos_def)
    have "map (Inr :: Todo \<Rightarrow> error + Todo) ts = map Inr (map ?F ?rows)"
      using ts [symmetric] Scan_rows_fields [OF nn] by (rule trans)
    then have "ts = map ?F ?rows"
      by (rule map_Inr_inj)
    with it have fl: "items todos = map ?F ?rows" by simp
    have pm: "mset ?rows = mset tbl"
      by (simp add: order_by_created_at_desc_def)
    have sc: "map Scan ?rows = map Inr (items todos)"
      using ts it by simp
    have "mset (map Inr ts) = mset (map Scan ?rows)" using ts by simp
    also have "\<dots> = mset (map Scan tbl)"
      by (simp add: order_by_created_at_desc_def)
    finally have ms: "mset (map Inr (items todos)) = mset (map Scan tbl)"
      using it by simp
    have sr: "sorted_wrt (\<lambda>a b. created_at b \<le> created_at a) ?rows"
      by (rule order_by_desc_sorted)
    then have "sorted_wrt (\<lambda>x y. y \<le> x) (map created_at ?rows)"
      by (simp add: sorted_wrt_map)
    then have "sorted_wrt (\<lambda>x y. y \<le> x) (map CreatedAt ts)"
      using scanned_created_at [OF ts] by simp
    then have so: "sorted_wrt (\<lambda>a b. CreatedAt b \<le> CreatedAt a) (items todos)"
      using it by (simp add: sorted_wrt_map)
    have le: "len todos = length tbl"
      using len_ts len_rows by (cases "?rows = []") (auto simp: todos_def)
    from l fl pm sr sc ms so le show ?thesis by (intro exI [of _ todos] conjI)
  qed
  have after: "tbl' = map (\<lambda>(c', t). \<lparr>id_col = gen_random_uuid c', title = Title t,
                                   description = Some (Description t), completed = Completed t,
                                   created_at = now c', updated_at = now c'\<rparr>) cs
           \<and> (\<exists>todos. PostgresStore_ListTodos c tbl' = ((todos, None), tbl')
                 \<and> items todos = map ?F (order_by_created_at_desc tbl')
                 \<and> len todos = length cs)"
    if q: "query_err c = None" and e: "rows_err c = None" and cr: "create_all cs [] = Some tbl'"
  proof -
    from create_all_rows [OF cr] have nn: "\<forall>r\<in>set tbl'. description r \<noteq> None"
      and len: "length tbl' = length cs"
      by auto
    from main [OF q e nn] obtain todos where
      "PostgresStore_ListTodos c tbl' = ((todos, None), tbl')"
      and "items todos = map ?F (order_by_created_at_desc tbl')"
      and "len todos = length tbl'"
      by blast
    with len have "\<exists>todos. PostgresStore_ListTodos c tbl' = ((todos, None), tbl')
                 \<and> items todos = map ?F (order_by_created_at_desc tbl')
                 \<and> len todos = length cs"
      by auto
    moreover from create_all_table [OF cr]
    have "tbl' = map (\<lambda>(c', t). \<lparr>id_col = gen_random_uuid c', title = Title t,
                                   description = Some (Description t), completed = Completed t,
                                   created_at = now c', updated_at = now c'\<rparr>) cs"
      by simp
    ultimately show ?thesis by blast
  qed
  from main after show ?thesis by blast
qed

theorem list_all_desc_witness:
  "query_err example_ctx = None \<and> rows_err example_ctx = None
   \<and> description example_row \<noteq> None \<and> description example_row2 \<noteq> None
   \<and> (\<exists>todos. PostgresStore_ListTodos example_ctx [example_row, example_row2] =
          ((todos, None), [example_row, example_row2])
        \<and> items todos =
            [\<lparr>ID = ''u5'', Title = ''walk dog'', Description = ''soon'', Completed = True,
              CreatedAt = 9, UpdatedAt = 12\<rparr>,
             \<lparr>ID = ''u1'', Title = ''buy milk'', Description = [], Completed = False,
              CreatedAt = 3, UpdatedAt = 3\<rparr>]
        \<and> sorted_wrt (\<lambda>a b. CreatedAt b \<le> CreatedAt a) (items todos)
        \<and> len todos = 2)
   \<and> (\<exists>tbl todos.
          create_all [(example_ctx, example_todo),
                      (example_ctx\<lparr>gen_random_uuid := ''u3'', now := 8\<rparr>, example_todo)] [] = Some tbl
        \<and> PostgresStore_ListTodos example_ctx tbl = ((todos, None), tbl)
        \<and> items todos =
            [\<lparr>ID = ''u3'', Title = ''x'', Description = ''y'', Completed = True,
              CreatedAt = 8, UpdatedAt = 8\<rparr>,
             \<lparr>ID = ''u2'', Title = ''x'', Description = ''y'', Completed = True,
              CreatedAt = 7, UpdatedAt = 7\<rparr>]
        \<and> len todos = 2)"
proof -
  let ?cs = "[(example_ctx, example_todo), (example_ctx\<lparr>gen_random_uuid := ''u3'', now := 8\<rparr>, example_todo)]"
  let ?tbl = "[example_row, example_row2]"
  let ?F = "\<lambda>r. \<lparr>ID = id_col r, Title = title r,
                 Description = (case description r of None \<Rightarrow> [] | Some d \<Rightarrow> d),
                 Completed = completed r, CreatedAt = created_at r, UpdatedAt = updated_at r\<rparr>"
  let ?tbl2 = "[\<lparr>id_col = ''u2'', title = ''x'', description = Some ''y'', completed = True,
            created_at = 7, updated_at = 7\<rparr>,
           \<lparr>id_col = ''u3'', title = ''x'', description = Some ''y'', completed = True,
            created_at = 8, updated_at = 8\<rparr>]"
  have h1: "query_err example_ctx = None" and h2: "rows_err example_ctx = None"
    by (simp_all add: example_ctx_def)
  have h3: "\<forall>r\<in>set ?tbl. description r \<noteq> None"
    by (simp add: example_row_def example_row2_def)
  have cr: "create_all ?cs [] = Some ?tbl2" by (rule example_creates)
  from list_all_desc [of example_ctx ?tbl ?cs ?tbl2] h1 h2 h3 cr
  obtain td1 td2 where
    l1: "PostgresStore_ListTodos example_ctx ?tbl = ((td1, None), ?tbl)"
    and s1: "items td1 = map ?F (order_by_created_at_desc ?tbl)"
    and o1: "sorted_wrt (\<lambda>a b. CreatedAt b \<le> CreatedAt a) (items td1)"
    and n1: "len td1 = length ?tbl"
    and l2: "PostgresStore_ListTodos example_ctx ?tbl2 = ((td2, None), ?tbl2)"
    and s2: "items td2 = map ?F (order_by_created_at_desc ?tbl2)"
    and n2: "len td2 = length ?cs"
    by blast
  have "order_by_created_at_desc ?tbl2 = rev ?tbl2"
    by (simp add: order_by_created_at_desc_def)
  with s2 have s2': "items td2 =
            [\<lparr>ID = ''u3'', Title = ''x'', Description = ''y'', Completed = True,
              CreatedAt = 8, UpdatedAt = 8\<rparr>,
             \<lparr>ID = ''u2'', Title = ''x'', Description = ''y'', Completed = True,
              CreatedAt = 7, UpdatedAt = 7\<rparr>]"
    by simp
  from s1 have s1': "items td1 =
            [\<lparr>ID = ''u5'', Title = ''walk dog'', Description = ''soon'', Completed = True,
              CreatedAt = 9, UpdatedAt = 12\<rparr>,
             \<lparr>ID = ''u1'', Title = ''buy milk'', Description = [], Completed = False,
              CreatedAt = 3, UpdatedAt = 3\<rparr>]"
    by (simp add: example_sorted) (simp add: example_row_def example_row2_def)
  from n1 have n1': "len td1 = 2" by simp
  from n2 have n2': "len td2 = 2" by simp
  have d1: "description example_row \<noteq> None" and d2: "description example_row2 \<noteq> None"
    using h3 by simp_all
  have A: "\<exists>todos. PostgresStore_ListTodos example_ctx [example_row, example_row2] =
          ((todos, None), [example_row, example_row2])
        \<and> items todos =
            [\<lparr>ID = ''u5'', Title = ''walk dog'', Description = ''soon'', Completed = True,
              CreatedAt = 9, UpdatedAt = 12\<rparr>,
             \<lparr>ID = ''u1'', Title = ''buy milk'', Description = [], Completed = False,
              CreatedAt = 3, UpdatedAt = 3\<rparr>]
        \<and> sorted_wrt (\<lambda>a b. CreatedAt b \<le> CreatedAt a) (items todos)
        \<and> len todos = 2"
    using l1 s1' o1 n1' by (intro exI [of _ td1] conjI)
  have B: "\<exists>tbl todos. create_all ?cs [] = Some tbl
        \<and> PostgresStore_ListTodos example_ctx tbl = ((todos, None), tbl)
        \<and> items todos =
            [\<lparr>ID = ''u3'', Title = ''x'', Description = ''y'', Completed = True,
              CreatedAt = 8, UpdatedAt = 8\<rparr>,
             \<lparr>ID = ''u2'', Title = ''x'', Description = ''y'', Completed = True,
              CreatedAt = 7, UpdatedAt = 7\<rparr>]
        \<and> len todos = 2"
    using cr l2 s2' n2' by (intro exI [of _ ?tbl2] exI [of _ td2] conjI)
  from h1 h2 d1 d2 A B show ?thesis by (intro conjI)
qed

end
